theory Spec2Isabelle
  imports Complex_Main "HOL-Library.AList"
begin

section \<open>JavaScript values and library calls the engine relies on\<close>

text \<open>
  The graph engine is the class \<open>ASRGoTGraph\<close>. Stages 1 to 3 with the identifier scheme
  \<open>2.k\<close> / \<open>3.d.k\<close> are taken from \<open>src/server/index-corrected.js\<close> (first class of the
  file); stages 4 to 6 exist only in \<open>src/server/index-backup.js\<close> and are taken from there,
  together with that file's own stages 1 to 3 (suffix \<open>_backup\<close>), which are needed to
  reach a stage 4 graph.

  JavaScript numbers are modelled as reals: rounding of IEEE doubles and the value NaN are
  not represented. A \<open>Map\<close> is an association list in insertion order (\<open>Map.set\<close> on a
  present key keeps its position, which is what \<^const>\<open>AList.update\<close> does). A \<open>Set\<close> of
  strings is a list without repetitions in insertion order. Strings are lists of 8-bit
  characters; \<open>toLowerCase\<close> and the regular expression \<open>\s\<close> are modelled on ASCII.
  The clock and the random identifier source are inputs of the operations that read them.
\<close>

text \<open>\<open>x || d\<close> for an optional number (0 is falsy), string (the empty string is falsy),
  and object or array (always truthy when present).\<close>

definition num_or :: "real option \<Rightarrow> real \<Rightarrow> real" where
  "num_or x d = (case x of None \<Rightarrow> d | Some v \<Rightarrow> if v = 0 then d else v)"

definition int_or :: "int option \<Rightarrow> int \<Rightarrow> int" where
  "int_or x d = (case x of None \<Rightarrow> d | Some v \<Rightarrow> if v = 0 then d else v)"

definition str_or :: "string option \<Rightarrow> string \<Rightarrow> string" where
  "str_or x d = (case x of None \<Rightarrow> d | Some s \<Rightarrow> if s = [] then d else s)"

definition obj_or :: "'a option \<Rightarrow> 'a \<Rightarrow> 'a" where
  "obj_or x d = (case x of None \<Rightarrow> d | Some v \<Rightarrow> v)"

text \<open>\<open>!x\<close> for a nullable string.\<close>

definition falsy_str :: "string option \<Rightarrow> bool" where
  "falsy_str x = (case x of None \<Rightarrow> True | Some s \<Rightarrow> s = [])"

text \<open>\<open>xs.slice(0, k)\<close> for an integer \<open>k\<close>: a negative \<open>k\<close> counts from the end.\<close>

definition slice0 :: "'a list \<Rightarrow> int \<Rightarrow> 'a list" where
  "slice0 xs k = (if k < 0 then take (nat (int (length xs) + k)) xs else take (nat k) xs)"

text \<open>\<open>xs.map((x, i) => f(x, i))\<close>, the index counted from \<open>k\<close>.\<close>

fun map_index :: "nat \<Rightarrow> ('a \<Rightarrow> nat \<Rightarrow> 'b) \<Rightarrow> 'a list \<Rightarrow> 'b list" where
  "map_index k f [] = []"
| "map_index k f (x # xs) = f x k # map_index (Suc k) f xs"

text \<open>\<open>new Set(xs)\<close> spread back into an array: first occurrences, in order.\<close>

fun set_add :: "'a list \<Rightarrow> 'a \<Rightarrow> 'a list" where
  "set_add s x = (if x \<in> set s then s else s @ [x])"

definition new_Set :: "'a list \<Rightarrow> 'a list" where
  "new_Set xs = foldl set_add [] xs"

text \<open>Decimal rendering of a natural number inside a template string.\<close>

definition digit_char :: "nat \<Rightarrow> char" where
  "digit_char d = ''0123456789'' ! d"

function string_of_nat :: "nat \<Rightarrow> string" where
  "string_of_nat n =
     (if n < 10 then [digit_char n] else string_of_nat (n div 10) @ [digit_char (n mod 10)])"
  by pat_completeness auto
termination
  by (relation "measure id") auto

declare string_of_nat.simps [simp del]

text \<open>\<open>s.split('.')\<close> and \<open>s.split(/\s+/)\<close>. The second argument collects the piece being
  read; the flag of \<open>split_ws\<close> tells that the previous character was white space, so a run
  of white space separates once. As in JavaScript a leading or trailing separator yields an
  empty piece, and the empty string yields one empty piece.\<close>

fun split_on :: "char \<Rightarrow> string \<Rightarrow> string \<Rightarrow> string list" where
  "split_on sep [] cur = [cur]"
| "split_on sep (c # cs) cur =
     (if c = sep then cur # split_on sep cs [] else split_on sep cs (cur @ [c]))"

definition is_space :: "char \<Rightarrow> bool" where
  "is_space c = (c \<in> set [CHR '' '', CHR 0x09, CHR 0x0A, CHR 0x0B, CHR 0x0C, CHR 0x0D])"

fun split_ws :: "string \<Rightarrow> string \<Rightarrow> bool \<Rightarrow> string list" where
  "split_ws [] cur in_sep = [cur]"
| "split_ws (c # cs) cur in_sep =
     (if is_space c then (if in_sep then split_ws cs cur True else cur # split_ws cs [] True)
      else split_ws cs (cur @ [c]) False)"

definition upper_case :: "string" where
  "upper_case = ''ABCDEFGHIJKLMNOPQRSTUVWXYZ''"

definition lower_case :: "string" where
  "lower_case = ''abcdefghijklmnopqrstuvwxyz''"

definition lower_char :: "char \<Rightarrow> char" where
  "lower_char c = (case map_of (zip upper_case lower_case) c of None \<Rightarrow> c | Some l \<Rightarrow> l)"

definition toLowerCase :: "string \<Rightarrow> string" where
  "toLowerCase s = map lower_char s"

definition words_of :: "string \<Rightarrow> string list" where
  "words_of text = split_ws (toLowerCase text) [] False"

section \<open>Data model\<close>

text \<open>
  A node is \<open>{node_id, label, type, content, confidence, metadata}\<close>. Of the metadata the
  model keeps the fields some operation reads again: the disciplinary tags, the
  falsification criteria, the impact score, the layer, the novelty score of
  \<open>info_metrics\<close>, the power of \<open>statistical_power\<close>, and the decay factor with the decay
  last applied. Time stamps, provenance, epistemic status, bias flags, attribution, the
  plan, the revision history and the topology metrics are written by the source and never
  read by the operations below; they are left out. The vector \<open>confidence\<close> is a plain array
  in \<open>index-backup.js\<close> and a distribution record in \<open>index-corrected.js\<close>, so the node is
  polymorphic in it.
\<close>

record node_metadata =
  disciplinary_tags :: "string list"
  falsification_criteria :: "string option"
  impact_score :: real
  layer_id :: string
  novelty_score :: "real option"
  statistical_power :: "real option"
  temporal_decay_factor :: "real option"
  temporal_decay_applied :: "real option"

record 'c node =
  node_id :: string
  label :: string
  node_type :: string
  content :: string
  confidence :: 'c
  metadata :: node_metadata

record 'c edge =
  edge_id :: string
  source :: string
  target :: string
  edge_type :: string
  edge_confidence :: 'c

record hyperedge =
  hyperedge_id :: string
  he_nodes :: "string list"
  he_target :: string
  relationship_type :: string
  he_confidence :: "real list"

record 'c graph =
  vertices :: "(string \<times> 'c node) list"
  edges :: "(string \<times> 'c edge) list"
  hyperedges :: "(string \<times> hyperedge) list"
  layers :: "(string \<times> string list) list"
  currentStage :: nat
  stage :: string

text \<open>Every \<open>throw\<close> of the source, and the \<open>TypeError\<close> the runtime raises when a property
  of \<open>undefined\<close> is read or a method is missing. A failing operation returns the error
  together with the graph as the exception leaves it.\<close>

datatype error =
  StageViolation nat nat
  | NotFound string
  | TypeError

type_synonym ('c, 'r) outcome = "(error \<times> 'c graph) + ('c graph \<times> 'r)"

record config =
  enable_multi_layer :: "bool option"
  cfg_disciplinary_tags :: "string list option"

definition default_config :: config where
  "default_config = \<lparr>enable_multi_layer = None, cfg_disciplinary_tags = None\<rparr>"

text \<open>\<open>_initializeLayers\<close> / \<open>_initializeLayerStructure\<close>: five empty layers.\<close>

definition defaultLayers :: "(string \<times> string list) list" where
  "defaultLayers =
     [(''base'', []), (''methodological'', []), (''empirical'', []), (''theoretical'', []),
      (''interdisciplinary'', [])]"

text \<open>\<open>this.layers.get(l).nodes.add(id)\<close>: a \<open>TypeError\<close> (here \<open>None\<close>) when the layer is
  missing.\<close>

definition layer_add :: "(string \<times> string list) list \<Rightarrow> string \<Rightarrow> string
    \<Rightarrow> (string \<times> string list) list option" where
  "layer_add ls l nid =
     (case map_of ls l of None \<Rightarrow> None
      | Some ns \<Rightarrow> Some (AList.update l (set_add ns nid) ls))"

definition make_metadata :: "string list \<Rightarrow> string option \<Rightarrow> real \<Rightarrow> string \<Rightarrow> node_metadata" where
  "make_metadata tags crit impact layer =
     \<lparr>disciplinary_tags = tags, falsification_criteria = crit, impact_score = impact,
      layer_id = layer, novelty_score = None, statistical_power = None,
      temporal_decay_factor = None, temporal_decay_applied = None\<rparr>"

section \<open>Stages 1 to 3 of \<open>index-corrected.js\<close>\<close>

record prob_dist =
  means :: "real list"
  variances :: "real list"

text \<open>\<open>_createProbabilityDistribution\<close>; the constant fields (type, samples, interval) are
  left out.\<close>

definition createProbabilityDistribution :: "real list \<Rightarrow> prob_dist" where
  "createProbabilityDistribution ms = \<lparr>means = ms, variances = map (\<lambda>m. m * (1 - m)) ms\<rparr>"

text \<open>The constructor: stage 0, layers unless \<open>config.enable_multi_layer === false\<close>.\<close>

definition new_graph :: "config \<Rightarrow> prob_dist graph" where
  "new_graph cfg =
     \<lparr>vertices = [], edges = [], hyperedges = [],
      layers = (if enable_multi_layer cfg \<noteq> Some False then defaultLayers else []),
      currentStage = 0, stage = ''initialization''\<rparr>"

record init_result =
  ir_node_id :: string
  ir_current_stage :: nat

definition initialize :: "prob_dist graph \<Rightarrow> string \<Rightarrow> real list \<Rightarrow> config
    \<Rightarrow> (prob_dist, init_result) outcome" where
  "initialize g taskDescription initialConfidence cfg =
     (if currentStage g \<noteq> 0 then Inl (StageViolation (currentStage g) 0, g)
      else
        let rootNode = \<lparr>node_id = ''n0'', label = ''Task Understanding'', node_type = ''root'',
              content = taskDescription,
              confidence = createProbabilityDistribution initialConfidence,
              metadata = make_metadata
                (obj_or (cfg_disciplinary_tags cfg) [''immunology'', ''dermatology''])
                None 0.8 ''base''\<rparr>;
            g1 = g\<lparr>vertices := AList.update ''n0'' rootNode (vertices g)\<rparr>
        in case layer_add (layers g1) ''base'' ''n0'' of
             None \<Rightarrow> Inl (TypeError, g1)
           | Some ls \<Rightarrow>
               let g2 = g1\<lparr>layers := ls, stage := ''initialization'', currentStage := 1\<rparr>
               in Inr (g2, \<lparr>ir_node_id = ''n0'', ir_current_stage = currentStage g2\<rparr>))"

definition defaultDimensions :: "string list" where
  "defaultDimensions =
     [''Scope'', ''Objectives'', ''Constraints'', ''Data Needs'', ''Use Cases'',
      ''Potential Biases'', ''Knowledge Gaps'']"

definition inferDisciplinaryTags :: "string \<Rightarrow> string list" where
  "inferDisciplinaryTags dimension =
     obj_or (map_of
       [(''Scope'', [''methodology'', ''research_design'']),
        (''Objectives'', [''goals'', ''outcomes'']),
        (''Constraints'', [''limitations'', ''resources'']),
        (''Data Needs'', [''data_science'', ''methodology'']),
        (''Use Cases'', [''application'', ''translation'']),
        (''Potential Biases'', [''methodology'', ''bias_detection'']),
        (''Knowledge Gaps'', [''knowledge_discovery'', ''research_gaps''])] dimension)
       [''general'']"

text \<open>One round of the \<open>forEach\<close> of \<open>decomposeTask\<close>: the state is the graph and the ids
  pushed so far; an exception ends the loop.\<close>

definition decompose_step :: "string \<Rightarrow> nat
    \<Rightarrow> (error \<times> prob_dist graph) + (prob_dist graph \<times> string list)
    \<Rightarrow> (error \<times> prob_dist graph) + (prob_dist graph \<times> string list)" where
  "decompose_step dimension index st =
     (case st of Inl e \<Rightarrow> Inl e
      | Inr (g, dimensionNodes) \<Rightarrow>
        let nodeId = ''2.'' @ string_of_nat (index + 1);
            dimensionNode = \<lparr>node_id = nodeId, label = dimension, node_type = ''dimension'',
              content = ''Analysis of '' @ dimension @ '' aspects of the research task'',
              confidence = createProbabilityDistribution [0.8, 0.8, 0.8, 0.8],
              metadata = make_metadata (inferDisciplinaryTags dimension) None 0.6 ''base''\<rparr>;
            g1 = g\<lparr>vertices := AList.update nodeId dimensionNode (vertices g)\<rparr>
        in case layer_add (layers g1) ''base'' nodeId of
             None \<Rightarrow> Inl (TypeError, g1)
           | Some ls \<Rightarrow>
               let edgeId = ''e_n0_'' @ nodeId;
                   g2 = g1\<lparr>layers := ls,
                     edges := AList.update edgeId
                       \<lparr>edge_id = edgeId, source = ''n0'', target = nodeId,
                        edge_type = ''Decomposition'',
                        edge_confidence = createProbabilityDistribution [0.9, 0.9, 0.9, 0.9]\<rparr>
                       (edges g1)\<rparr>
               in Inr (g2, dimensionNodes @ [nodeId]))"

fun for_each :: "('a \<Rightarrow> nat \<Rightarrow> 's \<Rightarrow> 's) \<Rightarrow> nat \<Rightarrow> 'a list \<Rightarrow> 's \<Rightarrow> 's" where
  "for_each f k [] st = st"
| "for_each f k (x # xs) st = for_each f (Suc k) xs (f x k st)"

record decompose_result =
  dimension_nodes :: "string list"
  dr_current_stage :: nat
  dimensions :: "string list"

definition decomposeTask :: "prob_dist graph \<Rightarrow> string list option
    \<Rightarrow> (prob_dist, decompose_result) outcome" where
  "decomposeTask g customDimensions =
     (if currentStage g \<noteq> 1 then Inl (StageViolation (currentStage g) 1, g)
      else
        let taskDimensions = obj_or customDimensions defaultDimensions
        in case for_each decompose_step 0 taskDimensions (Inr (g, [])) of
             Inl e \<Rightarrow> Inl e
           | Inr (g1, dimensionNodes) \<Rightarrow>
               let g2 = g1\<lparr>currentStage := 2, stage := ''decomposition''\<rparr>
               in Inr (g2, \<lparr>dimension_nodes = dimensionNodes, dr_current_stage = currentStage g2,
                            dimensions = taskDimensions\<rparr>))"

text \<open>A hypothesis as the tool schema describes it: an object with the required string
  \<open>content\<close> and optional fields. \<open>hypothesis.content || hypothesis\<close> is the object itself
  when the content is empty, and \<open>_assessInitialBiasRisk\<close> then calls \<open>toLowerCase\<close> on an
  object: a \<open>TypeError\<close>.\<close>

record hypothesis_input =
  h_content :: string
  h_confidence :: "real list option"
  h_falsification_criteria :: "string option"
  h_impact_score :: "real option"
  h_disciplinary_tags :: "string list option"

record hypotheses_config =
  max_hypotheses :: "int option"

text \<open>\<open>dimensionNodeId.split('.')[1]\<close>, printed as \<open>undefined\<close> when there is no second
  piece.\<close>

definition dimensionNumber_of :: "string \<Rightarrow> string" where
  "dimensionNumber_of dimensionNodeId =
     (case split_on (CHR ''.'') dimensionNodeId [] of
        a # b # rest \<Rightarrow> b
      | _ \<Rightarrow> ''undefined'')"

definition hypothesis_step :: "string \<Rightarrow> string \<Rightarrow> hypothesis_input \<Rightarrow> nat
    \<Rightarrow> (error \<times> prob_dist graph) + (prob_dist graph \<times> string list)
    \<Rightarrow> (error \<times> prob_dist graph) + (prob_dist graph \<times> string list)" where
  "hypothesis_step dimensionNodeId dimensionNumber hypothesis index st =
     (case st of Inl e \<Rightarrow> Inl e
      | Inr (g, hypothesisNodes) \<Rightarrow>
        let nodeId = ''3.'' @ dimensionNumber @ ''.'' @ string_of_nat (index + 1)
        in if h_content hypothesis = [] then Inl (TypeError, g)
           else
             let hypothesisNode = \<lparr>node_id = nodeId,
                   label = ''Hypothesis '' @ dimensionNumber @ ''.'' @ string_of_nat (index + 1),
                   node_type = ''hypothesis'', content = h_content hypothesis,
                   confidence = createProbabilityDistribution
                     (obj_or (h_confidence hypothesis) [0.5, 0.5, 0.5, 0.5]),
                   metadata = make_metadata
                     (obj_or (h_disciplinary_tags hypothesis) [])
                     (if falsy_str (h_falsification_criteria hypothesis) then None
                      else h_falsification_criteria hypothesis)
                     (num_or (h_impact_score hypothesis) 0.6) ''theoretical''\<rparr>;
                 g1 = g\<lparr>vertices := AList.update nodeId hypothesisNode (vertices g)\<rparr>
             in case layer_add (layers g1) ''theoretical'' nodeId of
                  None \<Rightarrow> Inl (TypeError, g1)
                | Some ls \<Rightarrow>
                    let edgeId = ''e_'' @ dimensionNodeId @ ''_'' @ nodeId;
                        g2 = g1\<lparr>layers := ls,
                          edges := AList.update edgeId
                            \<lparr>edge_id = edgeId, source = dimensionNodeId, target = nodeId,
                             edge_type = ''Hypothesis'',
                             edge_confidence =
                               createProbabilityDistribution [0.8, 0.8, 0.8, 0.8]\<rparr>
                            (edges g1)\<rparr>
                    in Inr (g2, hypothesisNodes @ [nodeId]))"

record hypotheses_result =
  hypothesis_nodes :: "string list"
  hr_current_stage :: nat

definition generateHypotheses :: "prob_dist graph \<Rightarrow> string \<Rightarrow> hypothesis_input list
    \<Rightarrow> hypotheses_config \<Rightarrow> (prob_dist, hypotheses_result) outcome" where
  "generateHypotheses g dimensionNodeId hypotheses cfg =
     (if currentStage g \<noteq> 2 then Inl (StageViolation (currentStage g) 2, g)
      else if map_of (vertices g) dimensionNodeId = None then Inl (NotFound dimensionNodeId, g)
      else
        let maxHypotheses = min (int_or (max_hypotheses cfg) 5) 5;
            dimensionNumber = dimensionNumber_of dimensionNodeId
        in case for_each (hypothesis_step dimensionNodeId dimensionNumber) 0
                  (slice0 hypotheses maxHypotheses) (Inr (g, [])) of
             Inl e \<Rightarrow> Inl e
           | Inr (g1, hypothesisNodes) \<Rightarrow>
               let g2 = g1\<lparr>currentStage := 3, stage := ''hypothesis_planning''\<rparr>
               in Inr (g2, \<lparr>hypothesis_nodes = hypothesisNodes,
                            hr_current_stage = currentStage g2\<rparr>))"

section \<open>The engine of \<open>index-backup.js\<close>\<close>

text \<open>
  In this file confidence vectors are plain arrays, the constructor starts at stage 1,
  \<open>initialize\<close> has no stage guard, and \<open>_createNodeMetadata\<close> gives every node the decay
  factor 0.95. The vectors are meant to have 4 components (the mean divides by 4); where
  the source would read past the end of an array and continue with NaN, the model reads
  \<open>xs ! i\<close> out of range, about which nothing can be proved: theorems that depend on such
  a read assume 4 components.
\<close>

type_synonym vec = "real list"

definition make_metadata_backup :: "string list \<Rightarrow> string option \<Rightarrow> real \<Rightarrow> string
    \<Rightarrow> node_metadata" where
  "make_metadata_backup tags crit impact layer =
     (make_metadata tags crit impact layer)\<lparr>temporal_decay_factor := Some 0.95\<rparr>"

definition new_graph_backup :: "config \<Rightarrow> vec graph" where
  "new_graph_backup cfg =
     \<lparr>vertices = [], edges = [], hyperedges = [],
      layers = (if enable_multi_layer cfg \<noteq> Some False then defaultLayers else []),
      currentStage = 1, stage = ''initialization''\<rparr>"

definition initialize_backup :: "vec graph \<Rightarrow> string \<Rightarrow> vec \<Rightarrow> config
    \<Rightarrow> (vec, init_result) outcome" where
  "initialize_backup g taskDescription initialConfidence cfg =
     (let rootNode = \<lparr>node_id = ''n0'', label = ''Task Understanding'', node_type = ''root'',
            content = taskDescription, confidence = initialConfidence,
            metadata = make_metadata_backup
              (obj_or (cfg_disciplinary_tags cfg) [''immunology'', ''dermatology''])
              None 0.8 ''base''\<rparr>;
          g1 = g\<lparr>vertices := AList.update ''n0'' rootNode (vertices g)\<rparr>
      in case layer_add (layers g1) ''base'' ''n0'' of
           None \<Rightarrow> Inl (TypeError, g1)
         | Some ls \<Rightarrow>
             let g2 = g1\<lparr>layers := ls, stage := ''initialization'', currentStage := 1\<rparr>
             in Inr (g2, \<lparr>ir_node_id = ''n0'', ir_current_stage = currentStage g2\<rparr>))"

definition decompose_step_backup :: "string \<Rightarrow> nat
    \<Rightarrow> (error \<times> vec graph) + (vec graph \<times> string list)
    \<Rightarrow> (error \<times> vec graph) + (vec graph \<times> string list)" where
  "decompose_step_backup dimension index st =
     (case st of Inl e \<Rightarrow> Inl e
      | Inr (g, dimensionNodes) \<Rightarrow>
        let nodeId = ''n2.'' @ string_of_nat (index + 1);
            dimensionNode = \<lparr>node_id = nodeId, label = dimension, node_type = ''dimension'',
              content = ''Analysis of '' @ dimension @ '' aspects of the research task'',
              confidence = [0.8, 0.8, 0.8, 0.8],
              metadata = make_metadata_backup (inferDisciplinaryTags dimension) None 0.6
                ''base''\<rparr>;
            g1 = g\<lparr>vertices := AList.update nodeId dimensionNode (vertices g)\<rparr>
        in case layer_add (layers g1) ''base'' nodeId of
             None \<Rightarrow> Inl (TypeError, g1)
           | Some ls \<Rightarrow>
               let edgeId = ''e_n0_'' @ nodeId;
                   g2 = g1\<lparr>layers := ls,
                     edges := AList.update edgeId
                       \<lparr>edge_id = edgeId, source = ''n0'', target = nodeId,
                        edge_type = ''Decomposition'',
                        edge_confidence = [0.9, 0.9, 0.9, 0.9]\<rparr>
                       (edges g1)\<rparr>
               in Inr (g2, dimensionNodes @ [nodeId]))"

definition decomposeTask_backup :: "vec graph \<Rightarrow> string list option
    \<Rightarrow> (vec, decompose_result) outcome" where
  "decomposeTask_backup g customDimensions =
     (if currentStage g \<noteq> 1 then Inl (StageViolation (currentStage g) 1, g)
      else
        let taskDimensions = obj_or customDimensions defaultDimensions
        in case for_each decompose_step_backup 0 taskDimensions (Inr (g, [])) of
             Inl e \<Rightarrow> Inl e
           | Inr (g1, dimensionNodes) \<Rightarrow>
               let g2 = g1\<lparr>currentStage := 2, stage := ''decomposition''\<rparr>
               in Inr (g2, \<lparr>dimension_nodes = dimensionNodes, dr_current_stage = currentStage g2,
                            dimensions = taskDimensions\<rparr>))"

definition hypothesis_step_backup :: "string \<Rightarrow> hypothesis_input \<Rightarrow> nat
    \<Rightarrow> (error \<times> vec graph) + (vec graph \<times> string list)
    \<Rightarrow> (error \<times> vec graph) + (vec graph \<times> string list)" where
  "hypothesis_step_backup dimensionNodeId hypothesis index st =
     (case st of Inl e \<Rightarrow> Inl e
      | Inr (g, hypothesisNodes) \<Rightarrow>
        let nodeId = ''h_'' @ dimensionNodeId @ ''_'' @ string_of_nat (index + 1)
        in if h_content hypothesis = [] then Inl (TypeError, g)
           else
             let hypothesisNode = \<lparr>node_id = nodeId,
                   label = ''Hypothesis '' @ string_of_nat (index + 1),
                   node_type = ''hypothesis'', content = h_content hypothesis,
                   confidence = obj_or (h_confidence hypothesis) [0.5, 0.5, 0.5, 0.5],
                   metadata = make_metadata_backup
                     (obj_or (h_disciplinary_tags hypothesis) [])
                     (if falsy_str (h_falsification_criteria hypothesis) then None
                      else h_falsification_criteria hypothesis)
                     (num_or (h_impact_score hypothesis) 0.6) ''theoretical''\<rparr>;
                 g1 = g\<lparr>vertices := AList.update nodeId hypothesisNode (vertices g)\<rparr>
             in case layer_add (layers g1) ''theoretical'' nodeId of
                  None \<Rightarrow> Inl (TypeError, g1)
                | Some ls \<Rightarrow>
                    let edgeId = ''e_'' @ dimensionNodeId @ ''_'' @ nodeId;
                        g2 = g1\<lparr>layers := ls,
                          edges := AList.update edgeId
                            \<lparr>edge_id = edgeId, source = dimensionNodeId, target = nodeId,
                             edge_type = ''Hypothesis'',
                             edge_confidence = [0.8, 0.8, 0.8, 0.8]\<rparr>
                            (edges g1)\<rparr>
                    in Inr (g2, hypothesisNodes @ [nodeId]))"

definition generateHypotheses_backup :: "vec graph \<Rightarrow> string \<Rightarrow> hypothesis_input list
    \<Rightarrow> hypotheses_config \<Rightarrow> (vec, hypotheses_result) outcome" where
  "generateHypotheses_backup g dimensionNodeId hypotheses cfg =
     (if currentStage g \<noteq> 2 then Inl (StageViolation (currentStage g) 2, g)
      else if map_of (vertices g) dimensionNodeId = None then Inl (NotFound dimensionNodeId, g)
      else
        let maxHypotheses = min (int_or (max_hypotheses cfg) 5) 5
        in case for_each (hypothesis_step_backup dimensionNodeId) 0
                  (slice0 hypotheses maxHypotheses) (Inr (g, [])) of
             Inl e \<Rightarrow> Inl e
           | Inr (g1, hypothesisNodes) \<Rightarrow>
               let g2 = g1\<lparr>currentStage := 3, stage := ''hypothesis_planning''\<rparr>
               in Inr (g2, \<lparr>hypothesis_nodes = hypothesisNodes,
                            hr_current_stage = currentStage g2\<rparr>))"

subsection \<open>Stage 4: evidence integration\<close>

text \<open>
  The evidence object of a tool call. The schema declares \<open>content\<close> (required),
  \<open>confidence\<close>, \<open>relationship\<close>, \<open>statistical_data\<close>, \<open>disciplinary_tags\<close> and
  \<open>impact_score\<close>. \<open>_calculateBayesianUpdate\<close> also reads \<open>evidence.statistical_power?.power\<close>
  and \<open>evidence.info_metrics?.novelty_score\<close> from the same object: the last two fields
  below, \<open>None\<close> when the caller sends what the schema declares.
\<close>

record evidence_input =
  ev_title :: "string option"
  ev_content :: string
  ev_confidence :: "vec option"
  ev_relationship :: "string option"
  ev_disciplinary_tags :: "string list option"
  ev_impact_score :: "real option"
  ev_statistical_data_power :: "real option"
  ev_statistical_power_power :: "real option"
  ev_info_metrics_novelty_score :: "real option"

definition assessNovelty :: "evidence_input \<Rightarrow> real" where
  "assessNovelty evidence =
     (let keywords = split_ws (toLowerCase (ev_content evidence)) [] False;
          novelKeywords = length (filter (\<lambda>word. length word > 6) keywords)
      in min 1 (real novelKeywords / max 1 (real (length keywords))))"

text \<open>\<open>_calculateBayesianUpdate\<close>: \<open>None\<close> is the \<open>TypeError\<close> of \<open>evidence.confidence.reduce\<close>
  on a missing vector.\<close>

definition calculateBayesianUpdate :: "evidence_input \<Rightarrow> string \<Rightarrow> vec option" where
  "calculateBayesianUpdate evidence edgeType =
     (case ev_confidence evidence of
        None \<Rightarrow> None
      | Some conf \<Rightarrow>
          let evidenceStrength = sum_list conf / 4;
              statPower = num_or (ev_statistical_power_power evidence) 0.8;
              infoValue = num_or (ev_info_metrics_novelty_score evidence) 0.5;
              updateFactors = [1, 1, 1, 1];
              baseUpdate = evidenceStrength * statPower * infoValue * 0.3
          in Some
            (if edgeType = ''Supportive'' then map (\<lambda>f. f * (1 + baseUpdate)) updateFactors
             else if edgeType = ''Contradictory'' then
               map (\<lambda>f. f * (1 - baseUpdate)) updateFactors
             else if edgeType = ''Correlative'' then
               map (\<lambda>f. f * (1 + baseUpdate * 0.5)) updateFactors
             else if edgeType = ''Causal'' then
               map (\<lambda>f. f * (1 + baseUpdate * 1.2)) updateFactors
             else map (\<lambda>f. f * (1 + baseUpdate * 0.3)) updateFactors))"

text \<open>\<open>_calculateSemanticSimilarity\<close>: Jaccard index of the two word sets.\<close>

definition calculateSemanticSimilarity :: "string \<Rightarrow> string \<Rightarrow> real" where
  "calculateSemanticSimilarity text1 text2 =
     (let words1 = new_Set (words_of text1);
          words2 = new_Set (words_of text2);
          intersection = new_Set (filter (\<lambda>x. x \<in> set words2) words1);
          union = new_Set (words1 @ words2)
      in if length union > 0 then real (length intersection) / real (length union) else 0)"

definition checkInterdisciplinaryBridges :: "vec graph \<Rightarrow> string \<Rightarrow> string
    \<Rightarrow> (error \<times> vec graph) + vec graph" where
  "checkInterdisciplinaryBridges g evidenceId hypothesisId =
     (case (map_of (vertices g) evidenceId, map_of (vertices g) hypothesisId) of
        (Some evidence, Some hypothesis) \<Rightarrow>
          let evidenceTags = new_Set (disciplinary_tags (metadata evidence));
              hypothesisTags = new_Set (disciplinary_tags (metadata hypothesis));
              intersection = new_Set (filter (\<lambda>x. x \<in> set hypothesisTags) evidenceTags);
              semanticSimilarity =
                calculateSemanticSimilarity (content evidence) (content hypothesis)
          in if length intersection = 0 \<and> semanticSimilarity > 0.5 then
               let ibnId = ''ibn_'' @ evidenceId @ ''_'' @ hypothesisId;
                   ibnNode = \<lparr>node_id = ibnId, label = ''Interdisciplinary Bridge'',
                     node_type = ''bridge'',
                     content = ''Bridge connecting [object Set] and [object Set]'',
                     confidence = [0.7, 0.7, 0.7, 0.7],
                     metadata = make_metadata_backup (evidenceTags @ hypothesisTags) None 0.8
                       ''interdisciplinary''\<rparr>;
                   g1 = g\<lparr>vertices := AList.update ibnId ibnNode (vertices g)\<rparr>
               in case layer_add (layers g1) ''interdisciplinary'' ibnId of
                    None \<Rightarrow> Inl (TypeError, g1)
                  | Some ls \<Rightarrow> Inr (g1\<lparr>layers := ls\<rparr>)
             else Inr g
      | _ \<Rightarrow> Inl (TypeError, g))"

definition checkHyperedgeCreation :: "vec graph \<Rightarrow> string \<Rightarrow> vec graph" where
  "checkHyperedgeCreation g evidenceId =
     (let relatedNodes = map (\<lambda>(edgeId, e). source e)
            (filter (\<lambda>(edgeId, e). target e = evidenceId) (edges g))
      in if length relatedNodes > 2 then
           let hyperedgeId = ''he_'' @ evidenceId
           in g\<lparr>hyperedges := AList.update hyperedgeId
                \<lparr>hyperedge_id = hyperedgeId, he_nodes = relatedNodes, he_target = evidenceId,
                 relationship_type = ''non_additive_influence'',
                 he_confidence = [0.6, 0.6, 0.6, 0.6]\<rparr> (hyperedges g)\<rparr>
         else g)"

text \<open>\<open>_applyTemporalDecay\<close>. \<open>ageMs\<close> is \<open>now - created\<close>, the milliseconds between the
  creation of the node's metadata and this call. \<open>Math.pow\<close> is \<open>powr\<close> on the positive
  bases that occur (the factor is 0.95 unless the metadata says otherwise), with
  \<open>Math.pow(x, 0) = 1\<close> written out.\<close>

definition js_pow :: "real \<Rightarrow> real \<Rightarrow> real" where
  "js_pow x y = (if y = 0 then 1 else x powr y)"

definition applyTemporalDecay :: "vec graph \<Rightarrow> string \<Rightarrow> real \<Rightarrow> (error \<times> vec graph) + vec graph" where
  "applyTemporalDecay g nodeId ageMs =
     (case map_of (vertices g) nodeId of
        None \<Rightarrow> Inl (TypeError, g)
      | Some n \<Rightarrow>
          let ageHours = ageMs / (1000 * 60 * 60);
              decayFactor = num_or (temporal_decay_factor (metadata n)) 0.95;
              decay = js_pow decayFactor (ageHours / 24);
              n' = n\<lparr>confidence := map (\<lambda>c. c * decay) (confidence n),
                     metadata := (metadata n)\<lparr>temporal_decay_applied := Some decay\<rparr>\<rparr>
          in Inr (g\<lparr>vertices := AList.update nodeId n' (vertices g)\<rparr>))"

record evidence_result =
  evidence_id :: string
  updated_confidence :: vec
  er_current_stage :: nat

text \<open>The evidence node that \<open>integrateEvidence\<close> creates, and the clamped update
  \<open>hypothesis.confidence.map((c, i) => Math.min(0.99, Math.max(0.01, c * updateFactor[i])))\<close>.\<close>

definition evidenceNode_of :: "string \<Rightarrow> evidence_input \<Rightarrow> vec node" where
  "evidenceNode_of evidenceId evidence =
     \<lparr>node_id = evidenceId, label = str_or (ev_title evidence) ''Evidence'',
      node_type = ''evidence'', content = ev_content evidence,
      confidence = obj_or (ev_confidence evidence) [0.7, 0.7, 0.7, 0.7],
      metadata = (make_metadata_backup (obj_or (ev_disciplinary_tags evidence) [])
          None (num_or (ev_impact_score evidence) 0.5) ''empirical'')
        \<lparr>statistical_power :=
           (if num_or (ev_statistical_data_power evidence) 0 = 0 then None
            else ev_statistical_data_power evidence),
         novelty_score := Some (assessNovelty evidence)\<rparr>\<rparr>"

definition clamped_update :: "vec \<Rightarrow> vec \<Rightarrow> vec" where
  "clamped_update updateFactor conf =
     map_index 0 (\<lambda>c i. min 0.99 (max 0.01 (c * updateFactor ! i))) conf"

text \<open>
  \<open>integrateEvidence\<close>. \<open>uuid8\<close> stands for \<open>uuidv4().slice(0, 8)\<close>. \<open>_adaptTopology\<close> writes
  only \<open>metadata.topology_metrics\<close> and is left out with that field; the optional
  \<open>edge_confidence\<close> of the evidence is taken at its default. The returned
  \<open>updated_confidence\<close> is read from the hypothesis object at the end of the call.
\<close>

definition integrateEvidence :: "string \<Rightarrow> real \<Rightarrow> vec graph \<Rightarrow> string \<Rightarrow> evidence_input
    \<Rightarrow> (vec, evidence_result) outcome" where
  "integrateEvidence uuid8 ageMs g hypothesisNodeId evidence =
     (if currentStage g \<noteq> 3 then Inl (StageViolation (currentStage g) 3, g)
      else if map_of (vertices g) hypothesisNodeId = None then
        Inl (NotFound hypothesisNodeId, g)
      else
        let evidenceId = ''e_'' @ uuid8;
            g1 = g\<lparr>vertices :=
                   AList.update evidenceId (evidenceNode_of evidenceId evidence) (vertices g)\<rparr>
        in case layer_add (layers g1) ''empirical'' evidenceId of
             None \<Rightarrow> Inl (TypeError, g1)
           | Some ls \<Rightarrow>
               let edgeId = ''e_'' @ evidenceId @ ''_'' @ hypothesisNodeId;
                   edgeType = str_or (ev_relationship evidence) ''Supportive'';
                   g2 = g1\<lparr>layers := ls,
                     edges := AList.update edgeId
                       \<lparr>edge_id = edgeId, source = evidenceId, target = hypothesisNodeId,
                        edge_type = edgeType,
                        edge_confidence = [0.8, 0.8, 0.8, 0.8]\<rparr> (edges g1)\<rparr>
               in case (map_of (vertices g2) hypothesisNodeId,
                        calculateBayesianUpdate evidence edgeType) of
                    (Some hypothesis, Some updateFactor) \<Rightarrow>
                      let hypothesis' = hypothesis\<lparr>confidence :=
                            clamped_update updateFactor (confidence hypothesis)\<rparr>;
                          g3 = g2\<lparr>vertices :=
                            AList.update hypothesisNodeId hypothesis' (vertices g2)\<rparr>
                      in (case checkInterdisciplinaryBridges g3 evidenceId hypothesisNodeId of
                            Inl e \<Rightarrow> Inl e
                          | Inr g4 \<Rightarrow>
                             (case applyTemporalDecay (checkHyperedgeCreation g4 evidenceId)
                                     evidenceId ageMs of
                                Inl e \<Rightarrow> Inl e
                              | Inr g5 \<Rightarrow>
                                  let g6 = g5\<lparr>currentStage := 4,
                                             stage := ''evidence_integration''\<rparr>
                                  in Inr (g6,
                                       \<lparr>evidence_id = evidenceId,
                                        updated_confidence =
                                          (case map_of (vertices g6) hypothesisNodeId of
                                             None \<Rightarrow> confidence hypothesis'
                                           | Some h \<Rightarrow> confidence h),
                                        er_current_stage = currentStage g6\<rparr>)))
                  | _ \<Rightarrow> Inl (TypeError, g2))"

subsection \<open>Stage 5: pruning and merging\<close>

text \<open>\<open>_removeNode\<close>: the edges at the node are collected and deleted by key (the keys of a
  \<open>Map\<close> are unique, so this keeps exactly the other entries), the node leaves every layer
  and the vertex map.\<close>

definition removeNode :: "vec graph \<Rightarrow> string \<Rightarrow> vec graph" where
  "removeNode g nodeId =
     g\<lparr>edges := filter (\<lambda>(edgeId, e). \<not> (source e = nodeId \<or> target e = nodeId)) (edges g),
       layers := map (\<lambda>(l, ns). (l, removeAll nodeId ns)) (layers g),
       vertices := AList.delete nodeId (vertices g)\<rparr>"

definition avgConfidence :: "vec node \<Rightarrow> real" where
  "avgConfidence n = sum_list (confidence n) / 4"

definition impact_of :: "vec node \<Rightarrow> real" where
  "impact_of n = num_or (Some (impact_score (metadata n))) 0.5"

text \<open>The test of the pruning loop on one entry of the vertex map.\<close>

definition prunable :: "real \<Rightarrow> string \<Rightarrow> vec node \<Rightarrow> bool" where
  "prunable pruningThreshold nodeId n =
     (if nodeId = ''n0'' then False
      else if avgConfidence n < pruningThreshold \<and> impact_of n < 0.3 then
        (if node_type n = ''hypothesis'' \<and> falsy_str (falsification_criteria (metadata n))
         then True
         else if node_type n \<noteq> ''hypothesis'' then True else False)
      else False)"

text \<open>One round of the pruning loop. The loop walks the vertex map and deletes only the
  entry it stands on, so it sees every entry of the map as it was at the start.\<close>

definition prune_step :: "real \<Rightarrow> vec graph \<times> string list \<Rightarrow> string \<times> vec node
    \<Rightarrow> vec graph \<times> string list" where
  "prune_step pruningThreshold st entry =
     (case (st, entry) of
        ((g, prunedNodes), (nodeId, n)) \<Rightarrow>
          if prunable pruningThreshold nodeId n then (removeNode g nodeId, prunedNodes @ [nodeId])
          else (g, prunedNodes))"

definition prune_pass :: "real \<Rightarrow> vec graph \<Rightarrow> vec graph \<times> string list" where
  "prune_pass pruningThreshold g = foldl (prune_step pruningThreshold) (g, []) (vertices g)"

text \<open>\<open>_mergeNodes\<close>. The merged node gets fresh metadata (layer \<open>base\<close>, no falsification
  criteria) and is put in no layer.\<close>

definition rewire :: "string \<Rightarrow> string \<Rightarrow> string \<Rightarrow> vec edge \<Rightarrow> vec edge" where
  "rewire nodeId1 nodeId2 mergedId e =
     e\<lparr>source := (if source e = nodeId1 \<or> source e = nodeId2 then mergedId else source e),
       target := (if target e = nodeId1 \<or> target e = nodeId2 then mergedId else target e)\<rparr>"

definition mergeNodes :: "vec graph \<Rightarrow> string \<Rightarrow> string \<Rightarrow> (error \<times> vec graph) + (vec graph \<times> string)" where
  "mergeNodes g nodeId1 nodeId2 =
     (case (map_of (vertices g) nodeId1, map_of (vertices g) nodeId2) of
        (Some node1, Some node2) \<Rightarrow>
          let mergedId = ''merged_'' @ nodeId1 @ ''_'' @ nodeId2;
              mergedConfidence =
                map_index 0 (\<lambda>c1 i. max c1 (confidence node2 ! i)) (confidence node1);
              mergedNode = \<lparr>node_id = mergedId, label = label node1 @ '' + '' @ label node2,
                node_type = node_type node1,
                content = content node1 @ '' | '' @ content node2,
                confidence = mergedConfidence,
                metadata = make_metadata_backup
                  (new_Set (disciplinary_tags (metadata node1) @ disciplinary_tags (metadata node2)))
                  None
                  (max (impact_score (metadata node1)) (impact_score (metadata node2)))
                  ''base''\<rparr>;
              g1 = g\<lparr>edges := map (\<lambda>(edgeId, e). (edgeId, rewire nodeId1 nodeId2 mergedId e))
                          (edges g)\<rparr>;
              g2 = removeNode (removeNode g1 nodeId1) nodeId2
          in Inr (g2\<lparr>vertices := AList.update mergedId mergedNode (vertices g2)\<rparr>, mergedId)
      | _ \<Rightarrow> Inl (TypeError, g))"

record merge_record =
  merged_id :: string
  original :: "string \<times> string"

text \<open>
  The two nested \<open>for\<close> loops of the merging pass as one function on the pair of indices:
  while \<open>j\<close> is inside the array the body of the inner loop runs; after a merge the entry
  \<open>j\<close> is spliced out and \<open>j--; j++\<close> leaves \<open>j\<close> where it is; when \<open>j\<close> leaves the array the
  outer loop moves to \<open>i + 1\<close> and starts the inner one at \<open>i + 2\<close>. Reading \<open>.type\<close> of a
  node that \<open>this.vertices.get\<close> does not find is the \<open>TypeError\<close>.
\<close>

function merge_loop :: "real \<Rightarrow> nat \<Rightarrow> nat \<Rightarrow> vec graph \<Rightarrow> string list \<Rightarrow> merge_record list
    \<Rightarrow> (error \<times> vec graph) + (vec graph \<times> merge_record list)" where
  "merge_loop mergingThreshold i j g remainingNodes mergedNodes =
     (if i < length remainingNodes then
        (if j < length remainingNodes then
           (case (map_of (vertices g) (remainingNodes ! i),
                  map_of (vertices g) (remainingNodes ! j)) of
              (Some node1, Some node2) \<Rightarrow>
                if node_type node1 = node_type node2
                   \<and> calculateSemanticSimilarity (content node1) (content node2)
                       \<ge> mergingThreshold
                then
                  (case mergeNodes g (remainingNodes ! i) (remainingNodes ! j) of
                     Inl e \<Rightarrow> Inl e
                   | Inr (g', mergedId) \<Rightarrow>
                       merge_loop mergingThreshold i j g'
                         (take j remainingNodes @ drop (Suc j) remainingNodes)
                         (mergedNodes @
                          [\<lparr>merged_id = mergedId,
                            original = (remainingNodes ! i, remainingNodes ! j)\<rparr>]))
                else merge_loop mergingThreshold i (Suc j) g remainingNodes mergedNodes
            | _ \<Rightarrow> Inl (TypeError, g))
         else merge_loop mergingThreshold (Suc i) (Suc (Suc i)) g remainingNodes mergedNodes)
      else Inr (g, mergedNodes))"
  by pat_completeness auto
termination
  by (relation "measures [\<lambda>(t, i, j, g, r, m). length r - i, \<lambda>(t, i, j, g, r, m). length r - j]")
     auto

declare merge_loop.simps [simp del]

record prune_config =
  pruning_threshold :: "real option"
  merging_threshold :: "real option"

record prune_result =
  pruned_nodes :: "string list"
  merged_nodes :: "merge_record list"
  pr_current_stage :: nat

definition pruneAndMergeNodes :: "vec graph \<Rightarrow> prune_config \<Rightarrow> (vec, prune_result) outcome" where
  "pruneAndMergeNodes g cfg =
     (if currentStage g \<noteq> 4 then Inl (StageViolation (currentStage g) 4, g)
      else
        let pruningThreshold = num_or (pruning_threshold cfg) 0.2;
            mergingThreshold = num_or (merging_threshold cfg) 0.8
        in case prune_pass pruningThreshold g of
             (g1, prunedNodes) \<Rightarrow>
               (case merge_loop mergingThreshold 0 1 g1 (map fst (vertices g1)) [] of
                  Inl e \<Rightarrow> Inl e
                | Inr (g2, mergedNodes) \<Rightarrow>
                    let g3 = g2\<lparr>currentStage := 5, stage := ''pruning_merging''\<rparr>
                    in Inr (g3, \<lparr>pruned_nodes = prunedNodes, merged_nodes = mergedNodes,
                                 pr_current_stage = currentStage g3\<rparr>)))"

subsection \<open>Stage 6: subgraph extraction\<close>

text \<open>The criteria object; a missing field takes its destructuring default.\<close>

record criteria =
  confidence_threshold :: "real option"
  impact_threshold :: "real option"
  node_types :: "string list option"
  edge_patterns :: "string list option"
  discipline_focus :: "string list option"
  layer_filter :: "string list option"
  include_bridges :: "bool option"

definition default_criteria :: criteria where
  "default_criteria =
     \<lparr>confidence_threshold = None, impact_threshold = None, node_types = None,
      edge_patterns = None, discipline_focus = None, layer_filter = None,
      include_bridges = None\<rparr>"

definition passes_filters :: "criteria \<Rightarrow> vec node \<Rightarrow> bool" where
  "passes_filters c n =
     (let nodeTypes = obj_or (node_types c) [];
          layerFilter = obj_or (layer_filter c) [];
          disciplineFocus = obj_or (discipline_focus c) []
      in avgConfidence n \<ge> obj_or (confidence_threshold c) 0.5
         \<and> impact_of n \<ge> obj_or (impact_threshold c) 0.6
         \<and> (length nodeTypes = 0 \<or> node_type n \<in> set nodeTypes)
         \<and> (length layerFilter = 0 \<or> layer_id (metadata n) \<in> set layerFilter)
         \<and> (length disciplineFocus = 0
              \<or> list_ex (\<lambda>tag. tag \<in> set disciplineFocus) (disciplinary_tags (metadata n))))"

definition select_node :: "criteria \<Rightarrow> string list \<Rightarrow> string \<times> vec node \<Rightarrow> string list" where
  "select_node c selectedNodes entry =
     (case entry of (nodeId, n) \<Rightarrow>
        let s1 = (if passes_filters c n then set_add selectedNodes nodeId else selectedNodes)
        in if obj_or (include_bridges c) True \<and> node_type n = ''bridge''
           then set_add s1 nodeId else s1)"

definition select_edge :: "criteria \<Rightarrow> string list \<Rightarrow> string list \<Rightarrow> string \<times> vec edge
    \<Rightarrow> string list" where
  "select_edge c selectedNodes selectedEdges entry =
     (case entry of (edgeId, e) \<Rightarrow>
        let edgePatterns = obj_or (edge_patterns c) []
        in if source e \<in> set selectedNodes \<and> target e \<in> set selectedNodes
              \<and> (length edgePatterns = 0 \<or> edge_type e \<in> set edgePatterns)
           then set_add selectedEdges edgeId else selectedEdges)"

record topology =
  density :: real
  average_degree :: real
  node_count :: nat
  edge_count :: nat

text \<open>\<open>_calculateSubgraphTopology\<close> on the sizes of the two sets.\<close>

definition calculateSubgraphTopology :: "string list \<Rightarrow> string list \<Rightarrow> topology" where
  "calculateSubgraphTopology nodes es =
     (let nodeCount = length nodes; edgeCount = length es
      in \<lparr>density =
            (if nodeCount > 1
             then (2 * real edgeCount) / (real nodeCount * (real nodeCount - 1)) else 0),
          average_degree = (if nodeCount > 0 then (2 * real edgeCount) / real nodeCount else 0),
          node_count = nodeCount, edge_count = edgeCount\<rparr>)"

record subgraph =
  sg_nodes :: "vec node list"
  sg_edges :: "vec edge list"
  topology_metrics :: topology

definition extractSubgraphs :: "vec graph \<Rightarrow> criteria \<Rightarrow> (vec, subgraph) outcome" where
  "extractSubgraphs g c =
     (if currentStage g \<noteq> 5 then Inl (StageViolation (currentStage g) 5, g)
      else
        let selectedNodes = foldl (select_node c) [] (vertices g);
            selectedEdges = foldl (select_edge c selectedNodes) [] (edges g);
            sg = \<lparr>sg_nodes = List.map_filter (map_of (vertices g)) selectedNodes,
                  sg_edges = List.map_filter (map_of (edges g)) selectedEdges,
                  topology_metrics = calculateSubgraphTopology selectedNodes selectedEdges\<rparr>
        in Inr (g\<lparr>currentStage := 6, stage := ''subgraph_extraction''\<rparr>, sg))"

section \<open>A session of \<open>index-backup.js\<close>\<close>

text \<open>
  The calls a client makes through the tools, in order: the constructor and
  \<open>initialize\<close>, \<open>decomposeTask\<close> with the default dimensions, \<open>generateHypotheses\<close> for
  the first dimension with three hypotheses (the second repeats the wording of the first),
  then \<open>integrateEvidence\<close> for the first hypothesis. The evidence is supportive, has full
  confidence, words of at most six letters, the wording of the hypothesis it supports and
  a discipline the hypothesis does not have. The clock does not advance between the
  creation of the evidence node and its decay.
\<close>

definition graph_of :: "('c, 'r) outcome \<Rightarrow> 'c graph" where
  "graph_of x = (case x of Inl (e, g) \<Rightarrow> g | Inr (g, r) \<Rightarrow> g)"

definition session_hypothesis :: "string \<Rightarrow> hypothesis_input" where
  "session_hypothesis text =
     \<lparr>h_content = text, h_confidence = None,
      h_falsification_criteria = Some ''no shift in a cohort of 200'',
      h_impact_score = None, h_disciplinary_tags = Some [''biology'']\<rparr>"

definition session_hypotheses :: "hypothesis_input list" where
  "session_hypotheses =
     [session_hypothesis ''gut flora shifts drive the skin rash'',
      session_hypothesis ''gut flora shifts drive the skin rash'',
      session_hypothesis ''sun light lowers the immune tone'']"

definition session_evidence :: evidence_input where
  "session_evidence =
     \<lparr>ev_title = None, ev_content = ''gut flora shifts drive the skin rash'',
      ev_confidence = Some [1, 1, 1, 1], ev_relationship = Some ''Supportive'',
      ev_disciplinary_tags = Some [''physics''], ev_impact_score = None,
      ev_statistical_data_power = None, ev_statistical_power_power = None,
      ev_info_metrics_novelty_score = None\<rparr>"

definition session_stage1 :: "vec graph" where
  "session_stage1 =
     graph_of (initialize_backup (new_graph_backup default_config) ''Study X''
       [0.8, 0.8, 0.8, 0.8] default_config)"

definition session_stage2 :: "vec graph" where
  "session_stage2 = graph_of (decomposeTask_backup session_stage1 None)"

definition session_stage3 :: "vec graph" where
  "session_stage3 =
     graph_of (generateHypotheses_backup session_stage2 ''n2.1'' session_hypotheses
       \<lparr>max_hypotheses = None\<rparr>)"

definition session_first_integration :: "(vec, evidence_result) outcome" where
  "session_first_integration =
     integrateEvidence ''abcd1234'' 0 session_stage3 ''h_n2.1_1'' session_evidence"

definition session_stage4 :: "vec graph" where
  "session_stage4 = graph_of session_first_integration"

text \<open>The same evidence with two words of eight letters as its content.\<close>

definition novel_evidence :: evidence_input where
  "novel_evidence = session_evidence\<lparr>ev_content := ''clinical evidence''\<rparr>"

section \<open>A second session, and two small graphs at stage 5\<close>

text \<open>
  The second session runs through \<open>pruneAndMergeNodes\<close>. Its four hypotheses for the
  first dimension are: one with mean confidence 0.05, impact 0.9 and no falsification
  criteria; one with mean confidence 0.05, impact 0.1 and falsification criteria; and two
  with the same wording, falsification criteria and the vectors \<open>[0.6, 0.6, 0.6, 0.6]\<close>
  and \<open>[0.4, 0.9, 0.4, 0.4]\<close>. The evidence has confidence 0 and impact 0.1, and shares
  no word with the hypothesis it is attached to.
\<close>

definition second_session_hypotheses :: "hypothesis_input list" where
  "second_session_hypotheses =
     [\<lparr>h_content = ''gut flora shifts drive the skin rash'',
       h_confidence = Some [0.05, 0.05, 0.05, 0.05], h_falsification_criteria = None,
       h_impact_score = Some 0.9, h_disciplinary_tags = Some [''biology'']\<rparr>,
      \<lparr>h_content = ''cold air dries the outer skin'',
       h_confidence = Some [0.05, 0.05, 0.05, 0.05],
       h_falsification_criteria = Some ''no change in a cohort of 200'',
       h_impact_score = Some 0.1, h_disciplinary_tags = Some [''biology'']\<rparr>,
      \<lparr>h_content = ''sun light lowers the immune tone'',
       h_confidence = Some [0.6, 0.6, 0.6, 0.6],
       h_falsification_criteria = Some ''no change in a cohort of 200'',
       h_impact_score = Some 0.5, h_disciplinary_tags = Some [''biology'']\<rparr>,
      \<lparr>h_content = ''sun light lowers the immune tone'',
       h_confidence = Some [0.4, 0.9, 0.4, 0.4],
       h_falsification_criteria = Some ''no change in a cohort of 200'',
       h_impact_score = Some 0.7, h_disciplinary_tags = Some [''physics'', ''biology'']\<rparr>]"

definition second_session_evidence :: evidence_input where
  "second_session_evidence =
     \<lparr>ev_title = None, ev_content = ''no data yet'',
      ev_confidence = Some [0, 0, 0, 0], ev_relationship = Some ''Supportive'',
      ev_disciplinary_tags = None, ev_impact_score = Some 0.1,
      ev_statistical_data_power = None, ev_statistical_power_power = None,
      ev_info_metrics_novelty_score = None\<rparr>"

definition second_session_stage3 :: "vec graph" where
  "second_session_stage3 =
     graph_of (generateHypotheses_backup session_stage2 ''n2.1'' second_session_hypotheses
       \<lparr>max_hypotheses = None\<rparr>)"

definition second_session_stage4 :: "vec graph" where
  "second_session_stage4 =
     graph_of (integrateEvidence ''abcd1234'' 0 second_session_stage3 ''h_n2.1_1''
       second_session_evidence)"

definition default_prune_config :: prune_config where
  "default_prune_config = \<lparr>pruning_threshold = None, merging_threshold = None\<rparr>"

definition second_session_pruned :: "vec graph" where
  "second_session_pruned = fst (prune_pass 0.2 second_session_stage4)"


text \<open>The first two calls on a fresh graph of \<open>index-corrected.js\<close>.\<close>

definition corrected_stage1 :: "prob_dist graph" where
  "corrected_stage1 =
     graph_of (initialize (new_graph default_config) ''Study X'' [0.8, 0.8, 0.8, 0.8]
       default_config)"

definition corrected_stage2 :: "prob_dist graph" where
  "corrected_stage2 = graph_of (decomposeTask corrected_stage1 (Some [''A'', ''B'']))"

text \<open>Three nodes that pass the default filters, joined pairwise (the triangle) or in a
  row (the path), in a graph at stage 5.\<close>

definition plain_node :: "string \<Rightarrow> vec node" where
  "plain_node nodeId =
     \<lparr>node_id = nodeId, label = nodeId, node_type = ''dimension'', content = nodeId,
      confidence = [0.8, 0.8, 0.8, 0.8],
      metadata = make_metadata_backup [] None 0.7 ''base''\<rparr>"

definition plain_edge :: "string \<Rightarrow> string \<Rightarrow> string \<times> vec edge" where
  "plain_edge a b =
     (''e_'' @ a @ ''_'' @ b,
      \<lparr>edge_id = ''e_'' @ a @ ''_'' @ b, source = a, target = b, edge_type = ''Other'',
       edge_confidence = [0.7, 0.7, 0.7, 0.7]\<rparr>)"

definition triangle_graph :: "vec graph" where
  "triangle_graph =
     \<lparr>vertices = [(''a'', plain_node ''a''), (''b'', plain_node ''b''), (''c'', plain_node ''c'')],
      edges = [plain_edge ''a'' ''b'', plain_edge ''b'' ''c'', plain_edge ''a'' ''c''],
      hyperedges = [], layers = defaultLayers, currentStage = 5, stage = ''pruning_merging''\<rparr>"

definition path_graph :: "vec graph" where
  "path_graph =
     \<lparr>vertices = [(''a'', plain_node ''a''), (''b'', plain_node ''b''), (''c'', plain_node ''c'')],
      edges = [plain_edge ''a'' ''b'', plain_edge ''b'' ''c''],
      hyperedges = [], layers = defaultLayers, currentStage = 5, stage = ''pruning_merging''\<rparr>"

section \<open>Evidence integration: stage gate, update rule, bounds, bridges\<close>


lemma length_map_index: "length (map_index k f xs) = length xs"
  by (induction xs arbitrary: k) auto



lemma checkBridges_edges:
  "checkInterdisciplinaryBridges g e h = Inr g' \<Longrightarrow> edges g' = edges g"
  by (auto simp: checkInterdisciplinaryBridges_def Let_def split: option.splits if_splits)


lemma checkHyperedge_edges: "edges (checkHyperedgeCreation g e) = edges g"
  by (simp add: checkHyperedgeCreation_def Let_def)



lemma applyTemporalDecay_edges:
  "applyTemporalDecay g e a = Inr g' \<Longrightarrow> edges g' = edges g"
  by (auto simp: applyTemporalDecay_def Let_def split: option.splits)

text \<open>What a successful \<open>integrateEvidence\<close> went through, step by step.\<close>

lemma integrateEvidence_InrE:
  assumes "integrateEvidence u a g hid ev = Inr (g', r)"
  obtains ls uf h0 g3 g4 g5 where
    "currentStage g = 3"
    "layer_add (layers g) ''empirical'' (''e_'' @ u) = Some ls"
    "calculateBayesianUpdate ev (str_or (ev_relationship ev) ''Supportive'') = Some uf"
    "map_of (AList.update (''e_'' @ u) (evidenceNode_of (''e_'' @ u) ev) (vertices g)) hid
       = Some h0"
    "vertices g3 = AList.update hid (h0\<lparr>confidence := clamped_update uf (confidence h0)\<rparr>)
        (AList.update (''e_'' @ u) (evidenceNode_of (''e_'' @ u) ev) (vertices g))"
    "edges g3 = AList.update (''e_'' @ (''e_'' @ u) @ ''_'' @ hid)
        \<lparr>edge_id = ''e_'' @ (''e_'' @ u) @ ''_'' @ hid, source = ''e_'' @ u, target = hid,
         edge_type = str_or (ev_relationship ev) ''Supportive'',
         edge_confidence = [0.8, 0.8, 0.8, 0.8]\<rparr> (edges g)"
    "checkInterdisciplinaryBridges g3 (''e_'' @ u) hid = Inr g4"
    "applyTemporalDecay (checkHyperedgeCreation g4 (''e_'' @ u)) (''e_'' @ u) a = Inr g5"
    "g' = g5\<lparr>currentStage := 4, stage := ''evidence_integration''\<rparr>"
    "updated_confidence r = (case map_of (vertices g5) hid of
         None \<Rightarrow> clamped_update uf (confidence h0) | Some h \<Rightarrow> confidence h)"
    "evidence_id r = ''e_'' @ u" "er_current_stage r = 4"
proof -
  let ?e = "''e_'' @ u"
  let ?vs1 = "AList.update ?e (evidenceNode_of ?e ev) (vertices g)"
  let ?ty = "str_or (ev_relationship ev) ''Supportive''"
  from assms have st: "currentStage g = 3" and ex: "map_of (vertices g) hid \<noteq> None"
    by (auto simp: integrateEvidence_def split: if_splits)
  from assms st ex obtain ls where ls: "layer_add (layers g) ''empirical'' ?e = Some ls"
    by (cases "layer_add (layers g) ''empirical'' ?e") (auto simp: integrateEvidence_def Let_def)
  from assms st ex ls obtain h0 where h0: "map_of ?vs1 hid = Some h0"
    by (cases "map_of ?vs1 hid") (auto simp: integrateEvidence_def Let_def)
  from assms st ex ls h0 obtain uf where uf: "calculateBayesianUpdate ev ?ty = Some uf"
    by (cases "calculateBayesianUpdate ev ?ty") (auto simp: integrateEvidence_def Let_def)
  let ?g3 = "g\<lparr>layers := ls,
      edges := AList.update (''e_'' @ ?e @ ''_'' @ hid)
        \<lparr>edge_id = ''e_'' @ ?e @ ''_'' @ hid, source = ?e, target = hid,
         edge_type = ?ty, edge_confidence = [0.8, 0.8, 0.8, 0.8]\<rparr> (edges g),
      vertices := AList.update hid
        (h0\<lparr>confidence := clamped_update uf (confidence h0)\<rparr>) ?vs1\<rparr>"
  from assms st ex ls h0 uf obtain g4 where
    g4: "checkInterdisciplinaryBridges ?g3 ?e hid = Inr g4"
    by (cases "checkInterdisciplinaryBridges ?g3 ?e hid")
       (auto simp: integrateEvidence_def Let_def)
  from assms st ex ls h0 uf g4 obtain g5 where
    g5: "applyTemporalDecay (checkHyperedgeCreation g4 ?e) ?e a = Inr g5"
    by (cases "applyTemporalDecay (checkHyperedgeCreation g4 ?e) ?e a")
       (auto simp: integrateEvidence_def Let_def)
  from assms st ex ls h0 uf g4 g5 have
    res: "g' = g5\<lparr>currentStage := 4, stage := ''evidence_integration''\<rparr>"
      "updated_confidence r = (case map_of (vertices g5) hid of
         None \<Rightarrow> clamped_update uf (confidence h0) | Some h \<Rightarrow> confidence h)"
      "evidence_id r = ?e" "er_current_stage r = 4"
    by (auto simp: integrateEvidence_def Let_def split: option.splits)
  show thesis
    by (rule that[of ls uf h0 ?g3 g4 g5]) (use st ls uf h0 g4 g5 res in simp_all)
qed

lemma integrateEvidence_wrong_stage:
  "currentStage g \<noteq> 3 \<Longrightarrow>
     integrateEvidence uuid8 ageMs g hypothesisNodeId evidence
       = Inl (StageViolation (currentStage g) 3, g)"
  by (simp add: integrateEvidence_def)

lemma integrateEvidence_leaves_stage_4:
  assumes "integrateEvidence u a g hid ev = Inr (g', r)"
  shows "currentStage g' = 4"
  using assms by (elim integrateEvidence_InrE) simp

text \<open>Whatever succeeds leaves stage 4, and stage 4 is not stage 3: no second call of
  \<open>integrateEvidence\<close> on the same graph gets past the guard.\<close>

lemma integrateEvidence_never_twice:
  assumes "integrateEvidence u a g hid ev = Inr (g', r)"
  shows "integrateEvidence u' a' g' hid' ev' = Inl (StageViolation 4 3, g')"
  using integrateEvidence_leaves_stage_4[OF assms]
    integrateEvidence_wrong_stage[of g' u' a' hid' ev'] by simp

text \<open>The only edge a call adds is the one from the evidence to the hypothesis.\<close>

lemma integrateEvidence_edges:
  assumes "integrateEvidence u a g hid ev = Inr (g', r)"
  shows "edges g' = AList.update (''e_'' @ (''e_'' @ u) @ ''_'' @ hid)
        \<lparr>edge_id = ''e_'' @ (''e_'' @ u) @ ''_'' @ hid, source = ''e_'' @ u, target = hid,
         edge_type = str_or (ev_relationship ev) ''Supportive'',
         edge_confidence = [0.8, 0.8, 0.8, 0.8]\<rparr> (edges g)"
  using assms
  by (elim integrateEvidence_InrE)
     (simp add: checkBridges_edges checkHyperedge_edges applyTemporalDecay_edges)

text \<open>
  C1. Claim: once a first \<open>integrateEvidence\<close> has brought the graph to stage 4, every
  further \<open>integrateEvidence\<close> naming an existing hypothesis succeeds as well. The guard of
  the source is \<open>this.currentStage !== 3\<close>, and the call itself sets the stage to 4. In the
  session above the first call succeeds and leaves stage 4 with the hypothesis
  \<open>h_n2.1_1\<close> in place; the same call made again (with a new random identifier) is
  rejected with the stage error "current 4, expected 3", the graph unchanged.
\<close>

theorem second_integrateEvidence_rejected:
  "(case session_first_integration of
      Inl err \<Rightarrow> False
    | Inr (g, r) \<Rightarrow>
        currentStage g = 4 \<and> map_of (vertices g) ''h_n2.1_1'' \<noteq> None
        \<and> integrateEvidence ''ef567890'' 0 g ''h_n2.1_1'' session_evidence
            = Inl (StageViolation 4 3, g))"
  by code_simp

text \<open>
  C2. Claim: the update uses \<open>delta = mean(evidence.confidence) * power * noveltyScore *
  0.3 * m\<close> with \<open>noveltyScore\<close> the lexical novelty estimate. The estimate of
  \<open>_assessNovelty\<close> is computed and stored in the metadata of the evidence node, but
  \<open>_calculateBayesianUpdate\<close> reads \<open>evidence.info_metrics?.novelty_score || 0.5\<close> from the
  caller's object. The session's evidence has no word longer than six letters, so its
  lexical novelty is 0 and the claimed update leaves the hypothesis at 0.5; the code
  multiplies by \<open>1 + 1 * 0.8 * 0.5 * 0.3\<close> and returns 0.56. With the content
  \<open>clinical evidence\<close> the lexical novelty is 1 and the claimed update gives
  \<open>0.5 * (1 + 1 * 0.8 * 1 * 0.3) = 0.62\<close>; the code returns 0.56 again.
\<close>

theorem update_ignores_lexical_novelty:
  "assessNovelty session_evidence = 0
   \<and> map_option confidence (map_of (vertices session_stage3) ''h_n2.1_1'')
       = Some [0.5, 0.5, 0.5, 0.5]
   \<and> (case session_first_integration of
        Inl err \<Rightarrow> False
      | Inr (g, r) \<Rightarrow>
          updated_confidence r = [0.56, 0.56, 0.56, 0.56]
          \<and> map_option (novelty_score \<circ> metadata) (map_of (vertices g) ''e_abcd1234'')
              = Some (Some 0))
   \<and> assessNovelty novel_evidence = 1
   \<and> (case integrateEvidence ''abcd1234'' 0 session_stage3 ''h_n2.1_1'' novel_evidence of
        Inl err \<Rightarrow> False
      | Inr (g, r) \<Rightarrow>
          updated_confidence r = [0.56, 0.56, 0.56, 0.56]
          \<and> map_option (novelty_score \<circ> metadata) (map_of (vertices g) ''e_abcd1234'')
              = Some (Some 1))"
  by code_simp

text \<open>
  C6. Claim: the bridge node comes with edges that connect it to the evidence and the
  hypothesis. \<open>_checkInterdisciplinaryBridges\<close> stores the node and adds it to the layer,
  and nothing else. In the session the tag sets are disjoint and the wordings equal, the
  bridge node appears in the interdisciplinary layer with the union of the tags, the call
  adds the single edge from the evidence to the hypothesis, and no edge of the graph
  starts or ends at the bridge node.
\<close>

theorem bridge_node_has_no_edges:
  "(case session_first_integration of
      Inl err \<Rightarrow> False
    | Inr (g, r) \<Rightarrow>
        map_option (\<lambda>n. (node_type n, layer_id (metadata n), disciplinary_tags (metadata n)))
          (map_of (vertices g) ''ibn_e_abcd1234_h_n2.1_1'')
          = Some (''bridge'', ''interdisciplinary'', [''physics'', ''biology''])
        \<and> map_of (layers g) ''interdisciplinary'' = Some [''ibn_e_abcd1234_h_n2.1_1'']
        \<and> filter (\<lambda>(edgeId, e). source e = ''ibn_e_abcd1234_h_n2.1_1''
                      \<or> target e = ''ibn_e_abcd1234_h_n2.1_1'') (edges g) = []
        \<and> map fst (edges g) = map fst (edges session_stage3) @ [''e_e_abcd1234_h_n2.1_1''])"
  by code_simp

section \<open>Confidence bounds\<close>






section \<open>Graph builder: initialization and identifiers\<close>

text \<open>
  C8. Claim: \<open>initialize\<close> fails, leaving no root node and the stage unchanged, unless the
  vector has exactly 4 components in [0, 1]. The method has the stage guard and no check
  of the vector (the hardened request handler at the end of \<open>index-corrected.js\<close>
  validates length and range before it calls the method; the method itself and the
  handlers of the other variants do not). On a fresh graph the one-component vector
  \<open>[2]\<close> is accepted: the root node is created with it and the stage becomes 1.
\<close>

theorem initialize_accepts_any_vector:
  "(case initialize (new_graph default_config) ''Study X'' [2] default_config of
      Inl err \<Rightarrow> False
    | Inr (g, r) \<Rightarrow> currentStage g = 1 \<and> ir_node_id r = ''n0''
        \<and> map_option (\<lambda>n. (node_type n, means (confidence n))) (map_of (vertices g) ''n0'')
            = Some (''root'', [2]))"
  by code_simp

lemma string_of_nat_small:
  "string_of_nat (Suc 0) = ''1''" "string_of_nat (Suc (Suc 0)) = ''2''"
  "string_of_nat (Suc (Suc (Suc 0))) = ''3''"
  by (simp_all add: string_of_nat.simps digit_char_def)

text \<open>
  C7. Node identifiers. On any graph at stage 1 that has the base layer, \<open>decomposeTask\<close>
  with the two labels \<open>a\<close>, \<open>b\<close> returns the identifiers \<open>2.1\<close>, \<open>2.2\<close> in this order and
  stores under them the dimension nodes labelled \<open>a\<close> and \<open>b\<close>. On any graph at stage 2
  that has the node \<open>2.1\<close> and the theoretical layer, \<open>generateHypotheses\<close> for \<open>2.1\<close>
  with three hypotheses of non-empty content (and a limit of at least 3, the default
  being 5) returns \<open>3.1.1\<close>, \<open>3.1.2\<close>, \<open>3.1.3\<close> in this order and stores under them the
  hypothesis nodes with the three contents, in input order.
\<close>

theorem deterministic_ids:
  "(currentStage g = 1 \<and> map_of (layers g) ''base'' \<noteq> None \<longrightarrow>
      (\<exists>g' r. decomposeTask g (Some [a, b]) = Inr (g', r)
        \<and> dimension_nodes r = [''2.1'', ''2.2''] \<and> currentStage g' = 2
        \<and> map_option (\<lambda>n. (node_id n, label n, node_type n)) (map_of (vertices g') ''2.1'')
             = Some (''2.1'', a, ''dimension'')
        \<and> map_option (\<lambda>n. (node_id n, label n, node_type n)) (map_of (vertices g') ''2.2'')
             = Some (''2.2'', b, ''dimension'')))
   \<and> (currentStage g2 = 2 \<and> map_of (vertices g2) ''2.1'' \<noteq> None
        \<and> map_of (layers g2) ''theoretical'' \<noteq> None
        \<and> h_content h1 \<noteq> [] \<and> h_content h2 \<noteq> [] \<and> h_content h3 \<noteq> []
        \<and> 3 \<le> int_or (max_hypotheses cfg) 5 \<longrightarrow>
      (\<exists>g' r. generateHypotheses g2 ''2.1'' [h1, h2, h3] cfg = Inr (g', r)
        \<and> hypothesis_nodes r = [''3.1.1'', ''3.1.2'', ''3.1.3''] \<and> currentStage g' = 3
        \<and> map_option (\<lambda>n. (node_id n, node_type n, content n)) (map_of (vertices g') ''3.1.1'')
             = Some (''3.1.1'', ''hypothesis'', h_content h1)
        \<and> map_option (\<lambda>n. (node_id n, node_type n, content n)) (map_of (vertices g') ''3.1.2'')
             = Some (''3.1.2'', ''hypothesis'', h_content h2)
        \<and> map_option (\<lambda>n. (node_id n, node_type n, content n)) (map_of (vertices g') ''3.1.3'')
             = Some (''3.1.3'', ''hypothesis'', h_content h3)))"
proof (intro conjI impI)
  assume "currentStage g = 1 \<and> map_of (layers g) ''base'' \<noteq> None"
  then obtain ns where st: "currentStage g = 1" and base: "map_of (layers g) ''base'' = Some ns"
    by auto
  then show "\<exists>g' r. decomposeTask g (Some [a, b]) = Inr (g', r)
        \<and> dimension_nodes r = [''2.1'', ''2.2''] \<and> currentStage g' = 2
        \<and> map_option (\<lambda>n. (node_id n, label n, node_type n)) (map_of (vertices g') ''2.1'')
             = Some (''2.1'', a, ''dimension'')
        \<and> map_option (\<lambda>n. (node_id n, label n, node_type n)) (map_of (vertices g') ''2.2'')
             = Some (''2.2'', b, ''dimension'')"
    by (simp add: decomposeTask_def decompose_step_def obj_or_def Let_def layer_add_def
        update_conv' string_of_nat_small)
next
  assume "currentStage g2 = 2 \<and> map_of (vertices g2) ''2.1'' \<noteq> None
        \<and> map_of (layers g2) ''theoretical'' \<noteq> None
        \<and> h_content h1 \<noteq> [] \<and> h_content h2 \<noteq> [] \<and> h_content h3 \<noteq> []
        \<and> 3 \<le> int_or (max_hypotheses cfg) 5"
  then obtain d ns where st: "currentStage g2 = 2" and dim: "map_of (vertices g2) ''2.1'' = Some d"
    and th: "map_of (layers g2) ''theoretical'' = Some ns"
    and ne: "h_content h1 \<noteq> []" "h_content h2 \<noteq> []" "h_content h3 \<noteq> []"
    and mx: "3 \<le> int_or (max_hypotheses cfg) 5"
    by auto
  have sl: "slice0 [h1, h2, h3] (min (int_or (max_hypotheses cfg) 5) 5) = [h1, h2, h3]"
    using mx by (auto simp: slice0_def min_def)
  have dn: "dimensionNumber_of ''2.1'' = ''1''"
    by (simp add: dimensionNumber_of_def)
  show "\<exists>g' r. generateHypotheses g2 ''2.1'' [h1, h2, h3] cfg = Inr (g', r)
        \<and> hypothesis_nodes r = [''3.1.1'', ''3.1.2'', ''3.1.3''] \<and> currentStage g' = 3
        \<and> map_option (\<lambda>n. (node_id n, node_type n, content n)) (map_of (vertices g') ''3.1.1'')
             = Some (''3.1.1'', ''hypothesis'', h_content h1)
        \<and> map_option (\<lambda>n. (node_id n, node_type n, content n)) (map_of (vertices g') ''3.1.2'')
             = Some (''3.1.2'', ''hypothesis'', h_content h2)
        \<and> map_option (\<lambda>n. (node_id n, node_type n, content n)) (map_of (vertices g') ''3.1.3'')
             = Some (''3.1.3'', ''hypothesis'', h_content h3)"
    using st dim th ne
    by (simp add: generateHypotheses_def hypothesis_step_def Let_def sl dn layer_add_def
        update_conv' string_of_nat_small)
qed

text \<open>The witness for C7: the two calls on a fresh graph, with the labels A and B and the
  three hypotheses of the first session.\<close>

theorem deterministic_ids_witness:
  "\<exists>g' r g'' r'.
      decomposeTask corrected_stage1 (Some [''A'', ''B'']) = Inr (g', r)
      \<and> dimension_nodes r = [''2.1'', ''2.2'']
      \<and> generateHypotheses corrected_stage2 ''2.1'' session_hypotheses
            \<lparr>max_hypotheses = None\<rparr> = Inr (g'', r')
      \<and> hypothesis_nodes r' = [''3.1.1'', ''3.1.2'', ''3.1.3'']"
proof -
  let ?h = "session_hypothesis ''gut flora shifts drive the skin rash''"
  let ?h3 = "session_hypothesis ''sun light lowers the immune tone''"
  have a: "currentStage corrected_stage1 = 1 \<and> map_of (layers corrected_stage1) ''base'' \<noteq> None"
    by code_simp
  have c: "currentStage corrected_stage2 = 2 \<and> map_of (vertices corrected_stage2) ''2.1'' \<noteq> None
        \<and> map_of (layers corrected_stage2) ''theoretical'' \<noteq> None
        \<and> h_content ?h \<noteq> [] \<and> h_content ?h \<noteq> [] \<and> h_content ?h3 \<noteq> []
        \<and> 3 \<le> int_or (max_hypotheses \<lparr>max_hypotheses = None\<rparr>) 5"
    by code_simp
  from deterministic_ids[of corrected_stage1 "''A''" "''B''" corrected_stage2 ?h ?h ?h3
      "\<lparr>max_hypotheses = None\<rparr>"] a c
  show ?thesis
    unfolding session_hypotheses_def by blast
qed

section \<open>Pruning and merging\<close>

lemma removeNode_vertices: "vertices (removeNode g x) = AList.delete x (vertices g)"
  by (simp add: removeNode_def)





lemma set_foldl_set_add: "set (foldl set_add acc xs) = set acc \<union> set xs"
  by (induction xs arbitrary: acc) auto

lemma distinct_foldl_set_add: "distinct acc \<Longrightarrow> distinct (foldl set_add acc xs)"
  by (induction xs arbitrary: acc) auto

lemma set_new_Set: "set (new_Set xs) = set xs"
  by (simp add: new_Set_def set_foldl_set_add)

lemma distinct_new_Set: "distinct (new_Set xs)"
  by (simp add: new_Set_def distinct_foldl_set_add)

lemma nth_map_index: "i < length xs \<Longrightarrow> map_index k f xs ! i = f (xs ! i) (k + i)"
proof (induction xs arbitrary: k i)
  case Nil
  then show ?case by simp
next
  case (Cons x xs)
  then show ?case by (cases i) auto
qed

lemma map_index_max:
  "length xs = length ys \<Longrightarrow> map_index 0 (\<lambda>c1 i. max c1 (ys ! i)) xs = map2 max xs ys"
  by (simp add: list_eq_iff_nth_eq length_map_index nth_map_index)

lemma merged_id_neq: "''merged_'' @ a @ ''_'' @ b \<noteq> a" "''merged_'' @ a @ ''_'' @ b \<noteq> b"
  by (auto dest: arg_cong[where f = length])

lemma rewire_clears:
  assumes "m \<noteq> a" "m \<noteq> b"
  shows "source (rewire a b m e) \<noteq> a" "source (rewire a b m e) \<noteq> b"
    "target (rewire a b m e) \<noteq> a" "target (rewire a b m e) \<noteq> b"
  using assms by (auto simp: rewire_def)

lemma rewired_all:
  assumes "m \<noteq> a" "m \<noteq> b"
  shows "\<forall>(k, e) \<in> set (map (\<lambda>(k, e). (k, rewire a b m e)) es).
           source e \<noteq> a \<and> source e \<noteq> b \<and> target e \<noteq> a \<and> target e \<noteq> b"
  using rewire_clears[OF assms] by auto

lemma removeNode_edges_id:
  assumes "\<forall>(k, e) \<in> set (edges g). source e \<noteq> x \<and> target e \<noteq> x"
  shows "edges (removeNode g x) = edges g"
proof -
  have "filter (\<lambda>(edgeId, e). \<not> (source e = x \<or> target e = x)) (edges g) = edges g"
    using assms by (intro filter_True) auto
  then show ?thesis by (simp add: removeNode_def)
qed








text \<open>What \<open>_mergeNodes\<close> builds from two nodes of the graph.\<close>

lemma mergeNodes_result:
  assumes n1: "map_of (vertices g) id1 = Some n1" and n2: "map_of (vertices g) id2 = Some n2"
    and len: "length (confidence n1) = length (confidence n2)"
  shows "\<exists>g' m. mergeNodes g id1 id2 = Inr (g', ''merged_'' @ id1 @ ''_'' @ id2)
      \<and> map_of (vertices g') (''merged_'' @ id1 @ ''_'' @ id2) = Some m
      \<and> confidence m = map2 max (confidence n1) (confidence n2)
      \<and> set (disciplinary_tags (metadata m))
           = set (disciplinary_tags (metadata n1)) \<union> set (disciplinary_tags (metadata n2))
      \<and> distinct (disciplinary_tags (metadata m))
      \<and> impact_score (metadata m) = max (impact_score (metadata n1)) (impact_score (metadata n2))
      \<and> content m = content n1 @ '' | '' @ content n2
      \<and> node_type m = node_type n1
      \<and> edges g' = map (\<lambda>(k, e). (k, rewire id1 id2 (''merged_'' @ id1 @ ''_'' @ id2) e)) (edges g)
      \<and> filter (\<lambda>(k, e). source e = id1 \<or> source e = id2 \<or> target e = id1 \<or> target e = id2)
           (edges g') = []
      \<and> map_of (vertices g') id1 = None \<and> map_of (vertices g') id2 = None"
proof -
  define m where "m = ''merged_'' @ id1 @ ''_'' @ id2"
  let ?R = "map (\<lambda>(k, e). (k, rewire id1 id2 m e)) (edges g)"
  let ?g1 = "g\<lparr>edges := ?R\<rparr>"
  have ne: "m \<noteq> id1" "m \<noteq> id2"
    using merged_id_neq[of id1 id2] by (simp_all add: m_def)
  have all: "\<forall>(k, e) \<in> set ?R.
      source e \<noteq> id1 \<and> source e \<noteq> id2 \<and> target e \<noteq> id1 \<and> target e \<noteq> id2"
    by (rule rewired_all[OF ne])
  have none: "filter (\<lambda>(k, e). source e = id1 \<or> source e = id2 \<or> target e = id1 \<or> target e = id2)
      ?R = []"
    using all by (auto simp: filter_empty_conv)
  have e1: "edges (removeNode ?g1 id1) = ?R"
    using all removeNode_edges_id[of ?g1 id1] by fastforce
  have e2: "edges (removeNode (removeNode ?g1 id1) id2) = ?R"
    using all removeNode_edges_id[of "removeNode ?g1 id1" id2] unfolding e1 by fastforce
  have v2: "vertices (removeNode (removeNode ?g1 id1) id2)
      = AList.delete id2 (AList.delete id1 (vertices g))"
    by (simp add: removeNode_vertices)
  have "\<exists>g' n. mergeNodes g id1 id2 = Inr (g', m)
      \<and> map_of (vertices g') m = Some n
      \<and> confidence n = map2 max (confidence n1) (confidence n2)
      \<and> set (disciplinary_tags (metadata n))
           = set (disciplinary_tags (metadata n1)) \<union> set (disciplinary_tags (metadata n2))
      \<and> distinct (disciplinary_tags (metadata n))
      \<and> impact_score (metadata n) = max (impact_score (metadata n1)) (impact_score (metadata n2))
      \<and> content n = content n1 @ '' | '' @ content n2
      \<and> node_type n = node_type n1
      \<and> edges g' = ?R
      \<and> filter (\<lambda>(k, e). source e = id1 \<or> source e = id2 \<or> target e = id1 \<or> target e = id2)
           (edges g') = []
      \<and> map_of (vertices g') id1 = None \<and> map_of (vertices g') id2 = None"
    unfolding mergeNodes_def Let_def m_def[symmetric]
    using n1 n2 ne none
    by (simp add: e2 v2 update_conv' delete_conv' map_index_max[OF len]
        set_new_Set distinct_new_Set make_metadata_backup_def make_metadata_def)
  then show ?thesis unfolding m_def .
qed

text \<open>
  C5. Merging. When the merging pass stands on a pair of entries \<open>i\<close>, \<open>j\<close> whose nodes are
  of the same kind and whose contents have similarity at least the merging threshold,
  it calls \<open>_mergeNodes\<close>, records the pair with the identifier \<open>merged_<id1>_<id2>\<close> and
  goes on with the second identifier spliced out. The node stored under the new
  identifier has the component-wise maximum of the two 4-component vectors, the union of
  the tags (without repetition), the larger impact, the two contents joined by
  \<open>" | "\<close> and the kind of the first node; every edge is rewired, so no edge starts or ends
  at one of the originals, and both originals are gone from the vertex map.
\<close>

theorem merged_pair_properties:
  assumes i: "i < length remainingNodes" and j: "j < length remainingNodes"
    and id1: "remainingNodes ! i = id1" and id2: "remainingNodes ! j = id2"
    and n1: "map_of (vertices g) id1 = Some n1" and n2: "map_of (vertices g) id2 = Some n2"
    and kind: "node_type n1 = node_type n2"
    and sim: "mergingThreshold \<le> calculateSemanticSimilarity (content n1) (content n2)"
    and len: "length (confidence n1) = 4" "length (confidence n2) = 4"
  shows "\<exists>g' m. mergeNodes g id1 id2 = Inr (g', ''merged_'' @ id1 @ ''_'' @ id2)
      \<and> merge_loop mergingThreshold i j g remainingNodes mergedNodes
          = merge_loop mergingThreshold i j g'
              (take j remainingNodes @ drop (Suc j) remainingNodes)
              (mergedNodes @ [\<lparr>merged_id = ''merged_'' @ id1 @ ''_'' @ id2,
                                original = (id1, id2)\<rparr>])
      \<and> map_of (vertices g') (''merged_'' @ id1 @ ''_'' @ id2) = Some m
      \<and> confidence m = map2 max (confidence n1) (confidence n2)
      \<and> set (disciplinary_tags (metadata m))
           = set (disciplinary_tags (metadata n1)) \<union> set (disciplinary_tags (metadata n2))
      \<and> distinct (disciplinary_tags (metadata m))
      \<and> impact_score (metadata m) = max (impact_score (metadata n1)) (impact_score (metadata n2))
      \<and> content m = content n1 @ '' | '' @ content n2
      \<and> node_type m = node_type n1
      \<and> edges g' = map (\<lambda>(k, e). (k, rewire id1 id2 (''merged_'' @ id1 @ ''_'' @ id2) e)) (edges g)
      \<and> filter (\<lambda>(k, e). source e = id1 \<or> source e = id2 \<or> target e = id1 \<or> target e = id2)
           (edges g') = []
      \<and> map_of (vertices g') id1 = None \<and> map_of (vertices g') id2 = None"
proof -
  from len have "length (confidence n1) = length (confidence n2)" by simp
  from mergeNodes_result[OF n1 n2 this] obtain g' m where
    mg: "mergeNodes g id1 id2 = Inr (g', ''merged_'' @ id1 @ ''_'' @ id2)"
    and rest: "map_of (vertices g') (''merged_'' @ id1 @ ''_'' @ id2) = Some m
      \<and> confidence m = map2 max (confidence n1) (confidence n2)
      \<and> set (disciplinary_tags (metadata m))
           = set (disciplinary_tags (metadata n1)) \<union> set (disciplinary_tags (metadata n2))
      \<and> distinct (disciplinary_tags (metadata m))
      \<and> impact_score (metadata m) = max (impact_score (metadata n1)) (impact_score (metadata n2))
      \<and> content m = content n1 @ '' | '' @ content n2
      \<and> node_type m = node_type n1
      \<and> edges g' = map (\<lambda>(k, e). (k, rewire id1 id2 (''merged_'' @ id1 @ ''_'' @ id2) e)) (edges g)
      \<and> filter (\<lambda>(k, e). source e = id1 \<or> source e = id2 \<or> target e = id1 \<or> target e = id2)
           (edges g') = []
      \<and> map_of (vertices g') id1 = None \<and> map_of (vertices g') id2 = None"
    by blast
  have step: "merge_loop mergingThreshold i j g remainingNodes mergedNodes
          = merge_loop mergingThreshold i j g'
              (take j remainingNodes @ drop (Suc j) remainingNodes)
              (mergedNodes @ [\<lparr>merged_id = ''merged_'' @ id1 @ ''_'' @ id2,
                                original = (id1, id2)\<rparr>])"
    using i j id1 id2 n1 n2 kind sim mg
    by (subst merge_loop.simps) simp
  from mg step rest show ?thesis by blast
qed

text \<open>The witness for C5: the last two hypotheses of the second session, after the
  pruning pass. Their vectors \<open>[0.6, 0.6, 0.6, 0.6]\<close> and \<open>[0.4, 0.9, 0.4, 0.4]\<close> merge to
  \<open>[0.6, 0.9, 0.6, 0.6]\<close>.\<close>

theorem merged_pair_properties_witness:
  "\<exists>g' m. mergeNodes second_session_pruned ''h_n2.1_3'' ''h_n2.1_4''
        = Inr (g', ''merged_h_n2.1_3_h_n2.1_4'')
      \<and> map_of (vertices g') ''merged_h_n2.1_3_h_n2.1_4'' = Some m
      \<and> confidence m = [0.6, 0.9, 0.6, 0.6]
      \<and> content m = ''sun light lowers the immune tone | sun light lowers the immune tone''
      \<and> map_of (vertices g') ''h_n2.1_3'' = None \<and> map_of (vertices g') ''h_n2.1_4'' = None"
proof -
  let ?g = second_session_pruned
  let ?rem = "map fst (vertices ?g)"
  let ?n1 = "the (map_of (vertices ?g) ''h_n2.1_3'')"
  let ?n2 = "the (map_of (vertices ?g) ''h_n2.1_4'')"
  have i: "10 < length ?rem" and j: "11 < length ?rem"
    and id1: "?rem ! 10 = ''h_n2.1_3''" and id2: "?rem ! 11 = ''h_n2.1_4''"
    by code_simp+
  have "map_of (vertices ?g) ''h_n2.1_3'' \<noteq> None" "map_of (vertices ?g) ''h_n2.1_4'' \<noteq> None"
    by code_simp+
  then have n1: "map_of (vertices ?g) ''h_n2.1_3'' = Some ?n1"
    and n2: "map_of (vertices ?g) ''h_n2.1_4'' = Some ?n2"
    by auto
  have kind: "node_type ?n1 = node_type ?n2"
    and sim: "0.8 \<le> calculateSemanticSimilarity (content ?n1) (content ?n2)"
    and c1: "confidence ?n1 = [0.6, 0.6, 0.6, 0.6]" and c2: "confidence ?n2 = [0.4, 0.9, 0.4, 0.4]"
    and t1: "content ?n1 = ''sun light lowers the immune tone''"
    and t2: "content ?n2 = ''sun light lowers the immune tone''"
    by code_simp+
  have len: "length (confidence ?n1) = 4" "length (confidence ?n2) = 4"
    by (simp_all add: c1 c2)
  from merged_pair_properties[OF i j id1 id2 n1 n2 kind sim len, of "[]"]
  show ?thesis
    unfolding c1 c2 t1 t2 by auto
qed

text \<open>The same merge as \<open>pruneAndMergeNodes\<close> reports it.\<close>

lemma second_session_merge_report:
  "(case pruneAndMergeNodes second_session_stage4 default_prune_config of
      Inl err \<Rightarrow> False
    | Inr (g, r) \<Rightarrow>
        merged_nodes r = [\<lparr>merged_id = ''merged_h_n2.1_3_h_n2.1_4'',
                           original = (''h_n2.1_3'', ''h_n2.1_4'')\<rparr>]
        \<and> map_option confidence (map_of (vertices g) ''merged_h_n2.1_3_h_n2.1_4'')
            = Some [0.6, 0.9, 0.6, 0.6])"
  by code_simp

text \<open>
  C10. Claim: the merging pass never reads a node that an earlier merge removed, so
  \<open>pruneAndMerge\<close> returns on every stage 4 graph. After a merge the loop splices the
  second identifier out of its array and keeps the first; the next round of the inner
  loop looks the first one up again, gets \<open>undefined\<close> and reads \<open>.type\<close> of it. In the
  session the first two hypotheses have the same wording and a third node follows them:
  the call ends in a \<open>TypeError\<close>, the pair already merged and the stage still 4.
\<close>

theorem pruneAndMerge_reads_removed_node:
  "currentStage session_stage4 = 4
   \<and> (case pruneAndMergeNodes session_stage4 default_prune_config of
        Inl (err, g) \<Rightarrow> err = TypeError \<and> currentStage g = 4
           \<and> map_of (vertices g) ''h_n2.1_1'' = None
           \<and> map_of (vertices g) ''merged_h_n2.1_1_h_n2.1_2'' \<noteq> None
      | Inr (g, r) \<Rightarrow> False)"
  by code_simp

section \<open>Subgraph extraction\<close>

lemma set_add_subset: "set (set_add s x) \<subseteq> insert x (set s)"
  by auto

lemma select_node_keys:
  "set (foldl (select_node c) acc vs) \<subseteq> set acc \<union> fst ` set vs"
proof (induction vs arbitrary: acc)
  case Nil
  then show ?case by simp
next
  case (Cons v vs)
  obtain k n where v: "v = (k, n)" by (cases v)
  have "set (select_node c acc v) \<subseteq> insert k (set acc)"
    by (auto simp: select_node_def v Let_def)
  with Cons[of "select_node c acc v"] show ?case
    by (auto simp: v)
qed

lemma select_edge_keys:
  "set (foldl (select_edge c sel) acc es) \<subseteq> set acc \<union> fst ` set es"
proof (induction es arbitrary: acc)
  case Nil
  then show ?case by simp
next
  case (Cons e es)
  obtain k x where e: "e = (k, x)" by (cases e)
  have "set (select_edge c sel acc e) \<subseteq> insert k (set acc)"
    by (auto simp: select_edge_def e Let_def)
  with Cons[of "select_edge c sel acc e"] show ?case
    by (auto simp: e)
qed

lemma length_map_filter_keys:
  assumes "set ks \<subseteq> fst ` set al"
  shows "length (List.map_filter (map_of al) ks) = length ks"
proof -
  have "\<forall>k \<in> set ks. map_of al k \<noteq> None"
    using assms by (auto simp: map_of_eq_None_iff)
  then have "filter (\<lambda>k. map_of al k \<noteq> None) ks = ks"
    by (intro filter_True) auto
  then show ?thesis
    by (simp add: List.map_filter_def)
qed

text \<open>
  C9. Density and average degree. When \<open>extractSubgraphs\<close> returns a subgraph with \<open>N\<close>
  nodes and \<open>E\<close> edges, its density is \<open>2E / (N (N - 1))\<close> if \<open>N > 1\<close> and 0 otherwise, and
  its average degree is \<open>2E / N\<close> (0 for the empty selection); so three nodes with three
  edges have density 1, and three nodes with two edges have density 2/3.
\<close>

theorem extractSubgraphs_density:
  assumes "extractSubgraphs g c = Inr (g', sg)"
  shows "density (topology_metrics sg)
      = (if length (sg_nodes sg) > 1
         then 2 * real (length (sg_edges sg))
              / (real (length (sg_nodes sg)) * (real (length (sg_nodes sg)) - 1))
         else 0)
    \<and> average_degree (topology_metrics sg)
      = (if length (sg_nodes sg) > 0
         then 2 * real (length (sg_edges sg)) / real (length (sg_nodes sg)) else 0)
    \<and> node_count (topology_metrics sg) = length (sg_nodes sg)
    \<and> edge_count (topology_metrics sg) = length (sg_edges sg)
    \<and> (length (sg_nodes sg) = 3 \<and> length (sg_edges sg) = 3
         \<longrightarrow> density (topology_metrics sg) = 1)
    \<and> (length (sg_nodes sg) = 3 \<and> length (sg_edges sg) = 2
         \<longrightarrow> density (topology_metrics sg) = 2 / 3)"
proof -
  let ?sn = "foldl (select_node c) [] (vertices g)"
  let ?se = "foldl (select_edge c ?sn) [] (edges g)"
  from assms have st: "currentStage g = 5"
    and sg: "sg = \<lparr>sg_nodes = List.map_filter (map_of (vertices g)) ?sn,
                  sg_edges = List.map_filter (map_of (edges g)) ?se,
                  topology_metrics = calculateSubgraphTopology ?sn ?se\<rparr>"
    by (auto simp: extractSubgraphs_def Let_def split: if_splits)
  have n: "length (sg_nodes sg) = length ?sn"
    using select_node_keys[of c "[]" "vertices g"]
    by (simp add: sg length_map_filter_keys)
  have e: "length (sg_edges sg) = length ?se"
    using select_edge_keys[of c ?sn "[]" "edges g"]
    by (simp add: sg length_map_filter_keys)
  have t: "topology_metrics sg = calculateSubgraphTopology ?sn ?se"
    by (simp add: sg)
  show ?thesis
    unfolding n e t by (simp add: calculateSubgraphTopology_def Let_def)
qed

text \<open>The witness for C9: the triangle. The path is evaluated next to it.\<close>

theorem extractSubgraphs_density_witness:
  "\<exists>g' sg. extractSubgraphs triangle_graph default_criteria = Inr (g', sg)
      \<and> length (sg_nodes sg) = 3 \<and> length (sg_edges sg) = 3
      \<and> density (topology_metrics sg) = 1
      \<and> average_degree (topology_metrics sg) = 2"
proof -
  have "case extractSubgraphs triangle_graph default_criteria of
          Inl err \<Rightarrow> False
        | Inr (g', sg) \<Rightarrow> length (sg_nodes sg) = 3 \<and> length (sg_edges sg) = 3"
    by code_simp
  then obtain g' sg where run: "extractSubgraphs triangle_graph default_criteria = Inr (g', sg)"
    and n: "length (sg_nodes sg) = 3" and e: "length (sg_edges sg) = 3"
    by (auto split: sum.splits)
  from extractSubgraphs_density[OF run] run n e show ?thesis
    by simp
qed

lemma path_density:
  "case extractSubgraphs path_graph default_criteria of
     Inl err \<Rightarrow> False
   | Inr (g', sg) \<Rightarrow> length (sg_nodes sg) = 3 \<and> length (sg_edges sg) = 2
       \<and> density (topology_metrics sg) = 2 / 3"
  by code_simp


end
